theory Spec2Isabelle
  imports Main
begin

section \<open>The header \<^verbatim>\<open>gvdb_render.h\<close>\<close>

text \<open>
  The header consists of 23 object-like macros that number the uniform slots of a shader
  program, followed by a block of 17 function declarations guarded by
  \<^verbatim>\<open>#ifdef BUILD_OPENGL\<close>. It has no function body. The embedding keeps both
  parts as data: every macro as an integer constant of its own name, every declaration
  as a record of its name, return type and parameter list, and the conditional block as a
  function of the compile flag.
\<close>

subsection \<open>Uniform slot macros (lines 14 to 36)\<close>

definition UVIEW :: int where "UVIEW = 0"
definition UPROJ :: int where "UPROJ = 1"
definition UMODEL :: int where "UMODEL = 2"
definition UINVVIEW :: int where "UINVVIEW = 3"
definition ULIGHTPOS :: int where "ULIGHTPOS = 4"
definition UCAMPOS :: int where "UCAMPOS = 5"
definition UCAMDIMS :: int where "UCAMDIMS = 6"
definition UCLRAMB :: int where "UCLRAMB = 7"
definition UCLRDIFF :: int where "UCLRDIFF = 8"
definition UCLRSPEC :: int where "UCLRSPEC = 9"
definition UTEX :: int where "UTEX = 10"
definition UTEXRES :: int where "UTEXRES = 11"
definition UW :: int where "UW = 12"
definition USHADOWMASK :: int where "USHADOWMASK = 13"
definition USHADOWSIZE :: int where "USHADOWSIZE = 14"
definition UEYELIGHT :: int where "UEYELIGHT = 15"
definition UOVERTEX :: int where "UOVERTEX = 16"
definition UOVERSIZE :: int where "UOVERSIZE = 17"
definition UVOLMIN :: int where "UVOLMIN = 18"
definition UVOLMAX :: int where "UVOLMAX = 19"
definition USAMPLES :: int where "USAMPLES = 20"
definition UTEXMIN :: int where "UTEXMIN = 21"
definition UTEXMAX :: int where "UTEXMAX = 22"

text \<open>The macro table of the header: each \<^verbatim>\<open>#define\<close> in the order of the file.\<close>

definition uniform_macros :: "(string \<times> int) list" where
  "uniform_macros =
    [(''UVIEW'', UVIEW), (''UPROJ'', UPROJ), (''UMODEL'', UMODEL), (''UINVVIEW'', UINVVIEW),
     (''ULIGHTPOS'', ULIGHTPOS), (''UCAMPOS'', UCAMPOS), (''UCAMDIMS'', UCAMDIMS),
     (''UCLRAMB'', UCLRAMB), (''UCLRDIFF'', UCLRDIFF), (''UCLRSPEC'', UCLRSPEC),
     (''UTEX'', UTEX), (''UTEXRES'', UTEXRES), (''UW'', UW),
     (''USHADOWMASK'', USHADOWMASK), (''USHADOWSIZE'', USHADOWSIZE),
     (''UEYELIGHT'', UEYELIGHT), (''UOVERTEX'', UOVERTEX), (''UOVERSIZE'', UOVERSIZE),
     (''UVOLMIN'', UVOLMIN), (''UVOLMAX'', UVOLMAX), (''USAMPLES'', USAMPLES),
     (''UTEXMIN'', UTEXMIN), (''UTEXMAX'', UTEXMAX)]"

lemmas slot_defs =
  UVIEW_def UPROJ_def UMODEL_def UINVVIEW_def ULIGHTPOS_def UCAMPOS_def UCAMDIMS_def
  UCLRAMB_def UCLRDIFF_def UCLRSPEC_def UTEX_def UTEXRES_def UW_def USHADOWMASK_def
  USHADOWSIZE_def UEYELIGHT_def UOVERTEX_def UOVERSIZE_def UVOLMIN_def UVOLMAX_def
  USAMPLES_def UTEXMIN_def UTEXMAX_def

subsection \<open>Function declarations (lines 45 to 63)\<close>

text \<open>
  The C++ types that occur in the declarations. \<^verbatim>\<open>Scene\<close>, \<^verbatim>\<open>Matrix4F\<close>,
  \<^verbatim>\<open>Vector3DF\<close> and \<^verbatim>\<open>Vector4DF\<close> are classes of other headers and appear by name.
  \<^verbatim>\<open>GVDB_API\<close> is a linkage macro and no part of a function's type.
\<close>

datatype ctype = TVoid | TInt | TBool | TChar | TClass string | TConst ctype | TPtr ctype

abbreviation const_char_ptr :: ctype where
  "const_char_ptr \<equiv> TPtr (TConst TChar)"

abbreviation Scene_ptr :: ctype where
  "Scene_ptr \<equiv> TPtr (TClass ''Scene'')"

abbreviation Matrix4F_ptr :: ctype where
  "Matrix4F_ptr \<equiv> TPtr (TClass ''Matrix4F'')"

record fdecl =
  fname :: string
  ret :: ctype
  args :: "(ctype \<times> string) list"

definition gchkGL_decl :: fdecl where
  "gchkGL_decl = \<lparr>fname = ''gchkGL'', ret = TVoid, args = [(const_char_ptr, ''msg'')]\<rparr>"

definition renderCamSetupGL_decl :: fdecl where
  "renderCamSetupGL_decl = \<lparr>fname = ''renderCamSetupGL'', ret = TVoid,
     args = [(Scene_ptr, ''scene''), (TInt, ''prog''), (Matrix4F_ptr, ''model'')]\<rparr>"

definition renderLightSetupGL_decl :: fdecl where
  "renderLightSetupGL_decl = \<lparr>fname = ''renderLightSetupGL'', ret = TVoid,
     args = [(Scene_ptr, ''scene''), (TInt, ''prog'')]\<rparr>"

text \<open>\<^verbatim>\<open>renderSceneGL\<close> is overloaded: line 49 declares it with two parameters, line 50 with three.\<close>

definition renderSceneGL_decl2 :: fdecl where
  "renderSceneGL_decl2 = \<lparr>fname = ''renderSceneGL'', ret = TVoid,
     args = [(Scene_ptr, ''scene''), (TInt, ''prog'')]\<rparr>"

definition renderSceneGL_decl3 :: fdecl where
  "renderSceneGL_decl3 = \<lparr>fname = ''renderSceneGL'', ret = TVoid,
     args = [(Scene_ptr, ''scene''), (TInt, ''prog''), (TBool, ''bMat'')]\<rparr>"

definition renderSetTex3D_decl :: fdecl where
  "renderSetTex3D_decl = \<lparr>fname = ''renderSetTex3D'', ret = TVoid,
     args = [(Scene_ptr, ''scene''), (TInt, ''prog''), (TInt, ''tex''),
             (TClass ''Vector3DF'', ''res'')]\<rparr>"

definition renderSetTex2D_decl :: fdecl where
  "renderSetTex2D_decl = \<lparr>fname = ''renderSetTex2D'', ret = TVoid,
     args = [(Scene_ptr, ''scene''), (TInt, ''prog''), (TInt, ''tex'')]\<rparr>"

definition renderSetMaterialGL_decl :: fdecl where
  "renderSetMaterialGL_decl = \<lparr>fname = ''renderSetMaterialGL'', ret = TVoid,
     args = [(Scene_ptr, ''scene''), (TInt, ''prog''), (TClass ''Vector4DF'', ''amb''),
             (TClass ''Vector4DF'', ''diff''), (TClass ''Vector4DF'', ''spec'')]\<rparr>"

definition renderSetUW_decl :: fdecl where
  "renderSetUW_decl = \<lparr>fname = ''renderSetUW'', ret = TVoid,
     args = [(Scene_ptr, ''scene''), (TInt, ''prog''), (Matrix4F_ptr, ''model''),
             (TClass ''Vector3DF'', ''res'')]\<rparr>"

definition renderScreenspaceGL_decl :: fdecl where
  "renderScreenspaceGL_decl = \<lparr>fname = ''renderScreenspaceGL'', ret = TVoid,
     args = [(Scene_ptr, ''scene''), (TInt, ''prog'')]\<rparr>"

definition makeSimpleShaderGL_decl :: fdecl where
  "makeSimpleShaderGL_decl = \<lparr>fname = ''makeSimpleShaderGL'', ret = TVoid,
     args = [(Scene_ptr, ''scene''), (const_char_ptr, ''vertfile''),
             (const_char_ptr, ''fragfile'')]\<rparr>"

definition makeSliceShader_decl :: fdecl where
  "makeSliceShader_decl = \<lparr>fname = ''makeSliceShader'', ret = TVoid,
     args = [(Scene_ptr, ''scene''), (const_char_ptr, ''vertname''),
             (const_char_ptr, ''fragname'')]\<rparr>"

definition makeOutlineShader_decl :: fdecl where
  "makeOutlineShader_decl = \<lparr>fname = ''makeOutlineShader'', ret = TVoid,
     args = [(Scene_ptr, ''scene''), (const_char_ptr, ''vertname''),
             (const_char_ptr, ''fragname'')]\<rparr>"

definition makeVoxelizeShader_decl :: fdecl where
  "makeVoxelizeShader_decl = \<lparr>fname = ''makeVoxelizeShader'', ret = TVoid,
     args = [(Scene_ptr, ''scene''), (const_char_ptr, ''vertname''),
             (const_char_ptr, ''fragname''), (const_char_ptr, ''geomname'')]\<rparr>"

definition makeRaycastShader_decl :: fdecl where
  "makeRaycastShader_decl = \<lparr>fname = ''makeRaycastShader'', ret = TVoid,
     args = [(Scene_ptr, ''scene''), (const_char_ptr, ''vertname''),
             (const_char_ptr, ''fragname'')]\<rparr>"

definition makeInstanceShader_decl :: fdecl where
  "makeInstanceShader_decl = \<lparr>fname = ''makeInstanceShader'', ret = TVoid,
     args = [(Scene_ptr, ''scene''), (const_char_ptr, ''vertname''),
             (const_char_ptr, ''fragname'')]\<rparr>"

definition makeScreenShader_decl :: fdecl where
  "makeScreenShader_decl = \<lparr>fname = ''makeScreenShader'', ret = TVoid,
     args = [(Scene_ptr, ''scene''), (const_char_ptr, ''vertname''),
             (const_char_ptr, ''fragname'')]\<rparr>"

lemmas decl_defs =
  gchkGL_decl_def renderCamSetupGL_decl_def renderLightSetupGL_decl_def
  renderSceneGL_decl2_def renderSceneGL_decl3_def renderSetTex3D_decl_def
  renderSetTex2D_decl_def renderSetMaterialGL_decl_def renderSetUW_decl_def
  renderScreenspaceGL_decl_def makeSimpleShaderGL_decl_def makeSliceShader_decl_def
  makeOutlineShader_decl_def makeVoxelizeShader_decl_def makeRaycastShader_decl_def
  makeInstanceShader_decl_def makeScreenShader_decl_def

text \<open>The declarations between \<^verbatim>\<open>#ifdef BUILD_OPENGL\<close> and \<^verbatim>\<open>#endif\<close>, in file order.\<close>

definition opengl_render :: "fdecl list" where
  "opengl_render =
    [gchkGL_decl,
     renderCamSetupGL_decl, renderLightSetupGL_decl, renderSceneGL_decl2,
     renderSceneGL_decl3, renderSetTex3D_decl, renderSetTex2D_decl,
     renderSetMaterialGL_decl, renderSetUW_decl, renderScreenspaceGL_decl,
     makeSimpleShaderGL_decl, makeSliceShader_decl, makeOutlineShader_decl,
     makeVoxelizeShader_decl, makeRaycastShader_decl, makeInstanceShader_decl,
     makeScreenShader_decl]"

subsection \<open>The header after preprocessing\<close>

text \<open>
  What a translation unit sees of the header: the macros always, the declarations only
  when \<^verbatim>\<open>BUILD_OPENGL\<close> is defined.
\<close>

record header =
  macros :: "(string \<times> int) list"
  declarations :: "fdecl list"

definition gvdb_render_h :: "bool \<Rightarrow> header" where
  "gvdb_render_h BUILD_OPENGL =
    \<lparr>macros = uniform_macros,
     declarations = (if BUILD_OPENGL then opengl_render else [])\<rparr>"

text \<open>
  The declarations fall into three groups by their names: the diagnostic \<^verbatim>\<open>gchkGL\<close>,
  the \<^verbatim>\<open>render...\<close> setup functions and the \<^verbatim>\<open>make...\<close> shader factories.
\<close>

definition is_render_setup :: "fdecl \<Rightarrow> bool" where
  "is_render_setup d = (take 6 (fname d) = ''render'')"

definition is_shader_factory :: "fdecl \<Rightarrow> bool" where
  "is_shader_factory d = (take 4 (fname d) = ''make'')"

definition shader_factories :: "header \<Rightarrow> fdecl list" where
  "shader_factories h = filter is_shader_factory (declarations h)"

definition render_setups :: "header \<Rightarrow> fdecl list" where
  "render_setups h = filter is_render_setup (declarations h)"

text \<open>The declared type of the parameter of a given name, if the function has one.\<close>

definition arg_type :: "fdecl \<Rightarrow> string \<Rightarrow> ctype option" where
  "arg_type d x = map_of (map (\<lambda>(t, n). (n, t)) (args d)) x"

text \<open>
  A parameter of pointer type accepts the null pointer; a parameter passed by value
  (an \<^verbatim>\<open>int\<close>, a \<^verbatim>\<open>bool\<close>, a class object) has no null value.
\<close>

fun admits_null :: "ctype \<Rightarrow> bool" where
  "admits_null (TPtr t) = True"
| "admits_null (TConst t) = admits_null t"
| "admits_null t = False"

section \<open>The render calls, modelled from the specification\<close>

text \<open>
  The header declares the render calls and gives none of them a body: the bodies are in
  \<^verbatim>\<open>gvdb_render.cpp\<close>, and the classes \<^verbatim>\<open>Scene\<close>, \<^verbatim>\<open>Matrix4F\<close>,
  \<^verbatim>\<open>Vector3DF\<close> and \<^verbatim>\<open>Vector4DF\<close> are in \<^verbatim>\<open>gvdb_scene.h\<close> and
  \<^verbatim>\<open>gvdb_vec.h\<close>. None of these files is among the sources. What the calls do is
  therefore taken from section 4.1 of the specification, sentence by sentence; the three
  vector classes stay type parameters \<open>'m\<close>, \<open>'v3\<close> and \<open>'v4\<close>. The slot numbers
  are the macros of the header.
\<close>

text \<open>
  Modelled from the spec: the value a uniform slot holds. The parameter types of the header
  give the four kinds: a \<^verbatim>\<open>Matrix4F\<close>, a \<^verbatim>\<open>Vector3DF\<close>, a \<^verbatim>\<open>Vector4DF\<close> and
  an \<^verbatim>\<open>int\<close> texture handle.
\<close>

datatype ('m, 'v3, 'v4) uval = UMat 'm | UVec3 'v3 | UVec4 'v4 | UInt int

text \<open>
  Modelled from the spec: what the graphics binding does with an upload to a uniform that
  the program does not declare. The spec leaves both open: it is "silently ignored or
  logged by the underlying graphics binding".
\<close>

datatype absent_policy = Ignored | Logged

text \<open>
  Modelled from the spec: the \<^verbatim>\<open>Scene\<close> class (missing: \<^verbatim>\<open>gvdb_scene.h\<close>), as far
  as section 3 describes it. It "holds a mapping from program handle back to slot bindings"
  (\<open>declares scene prog slot\<close>: the program declares a uniform for the slot) and owns the
  camera and view state, the light, the material and the geometry. The fields the setup
  calls read are kept as the uniform values they are uploaded as; \<open>screen_quad\<close> is the
  full-screen-quad state of \<^verbatim>\<open>renderScreenspaceGL\<close>, for which the spec names no slot.
\<close>

record ('m, 'v3, 'v4) Scene =
  declares :: "int \<Rightarrow> int \<Rightarrow> bool"
  cam_view :: "('m, 'v3, 'v4) uval"
  cam_proj :: "('m, 'v3, 'v4) uval"
  cam_invview :: "('m, 'v3, 'v4) uval"
  cam_pos :: "('m, 'v3, 'v4) uval"
  cam_dims :: "('m, 'v3, 'v4) uval"
  light_pos :: "('m, 'v3, 'v4) uval"
  eye_light :: "('m, 'v3, 'v4) uval"
  material :: "'v4 \<times> 'v4 \<times> 'v4"
  geometry :: "nat list"
  screen_quad :: "(int \<times> ('m, 'v3, 'v4) uval) list"

text \<open>
  Modelled from the spec: the graphics context the calls write to (missing: the OpenGL
  binding). It holds the value bound to each slot of each program, the diagnostic channel
  that \<^verbatim>\<open>gchkGL\<close> inspects, and the draw calls issued so far.
\<close>

record ('m, 'v3, 'v4) GL =
  uniforms :: "int \<times> int \<rightharpoonup> ('m, 'v3, 'v4) uval"
  on_absent :: absent_policy
  diagnostics :: "(int \<times> int) list"
  draws :: "(int \<times> nat) list"

text \<open>
  Modelled from the spec: one upload (missing: the uniform calls of \<^verbatim>\<open>gvdb_render.cpp\<close>).
  A declared uniform takes the value; an absent one is ignored or logged, "never fatal".
\<close>

definition setUniform ::
  "('m, 'v3, 'v4) Scene \<Rightarrow> int \<Rightarrow> ('m, 'v3, 'v4) GL \<Rightarrow> int \<times> ('m, 'v3, 'v4) uval
    \<Rightarrow> ('m, 'v3, 'v4) GL" where
  "setUniform scene prog gl kv =
    (if declares scene prog (fst kv)
     then gl\<lparr>uniforms := (uniforms gl)((prog, fst kv) \<mapsto> snd kv)\<rparr>
     else (case on_absent gl of
             Ignored \<Rightarrow> gl
           | Logged \<Rightarrow> gl\<lparr>diagnostics := diagnostics gl @ [(prog, fst kv)]\<rparr>))"

text \<open>Modelled from the spec: a sequence of uploads to one program, in order.\<close>

fun upload ::
  "('m, 'v3, 'v4) Scene \<Rightarrow> int \<Rightarrow> ('m, 'v3, 'v4) GL \<Rightarrow> (int \<times> ('m, 'v3, 'v4) uval) list
    \<Rightarrow> ('m, 'v3, 'v4) GL" where
  "upload scene prog gl [] = gl"
| "upload scene prog gl (kv # kvs) = upload scene prog (setUniform scene prog gl kv) kvs"

text \<open>
  Modelled from the spec: \<^verbatim>\<open>renderCamSetupGL\<close> (missing: its body) "writes view,
  projection, inverse-view, camera position/dimensions, and the model matrix into slots
  UVIEW/UPROJ/UINVVIEW/UCAMPOS/UCAMDIMS/UMODEL". The argument \<open>model\<close> is the matrix a
  non-null pointer points to; the spec does not say what the call does with a null pointer.
\<close>

definition renderCamSetupGL ::
  "('m, 'v3, 'v4) Scene \<Rightarrow> ('m, 'v3, 'v4) GL \<Rightarrow> int \<Rightarrow> 'm \<Rightarrow> ('m, 'v3, 'v4) GL" where
  "renderCamSetupGL scene gl prog model =
    upload scene prog gl
      [(UVIEW, cam_view scene), (UPROJ, cam_proj scene), (UINVVIEW, cam_invview scene),
       (UCAMPOS, cam_pos scene), (UCAMDIMS, cam_dims scene), (UMODEL, UMat model)]"

text \<open>
  Modelled from the spec: \<^verbatim>\<open>renderLightSetupGL\<close> (missing: its body) "writes light
  position and eye-light flag (ULIGHTPOS, UEYELIGHT)".
\<close>

definition renderLightSetupGL ::
  "('m, 'v3, 'v4) Scene \<Rightarrow> ('m, 'v3, 'v4) GL \<Rightarrow> int \<Rightarrow> ('m, 'v3, 'v4) GL" where
  "renderLightSetupGL scene gl prog =
    upload scene prog gl [(ULIGHTPOS, light_pos scene), (UEYELIGHT, eye_light scene)]"

text \<open>
  Modelled from the spec: \<^verbatim>\<open>renderSetTex3D\<close> (missing: its body) "binds a texture
  resource to slot UTEX, and for the 3-D form also uploads its resolution to UTEXRES".
\<close>

definition renderSetTex3D ::
  "('m, 'v3, 'v4) Scene \<Rightarrow> ('m, 'v3, 'v4) GL \<Rightarrow> int \<Rightarrow> int \<Rightarrow> 'v3 \<Rightarrow> ('m, 'v3, 'v4) GL" where
  "renderSetTex3D scene gl prog tex res =
    upload scene prog gl [(UTEX, UInt tex), (UTEXRES, UVec3 res)]"

text \<open>
  Modelled from the spec: \<^verbatim>\<open>renderSetTex2D\<close> (missing: its body), the 2-D form of the
  same sentence: it binds the texture to slot UTEX and has no resolution to upload.
\<close>

definition renderSetTex2D ::
  "('m, 'v3, 'v4) Scene \<Rightarrow> ('m, 'v3, 'v4) GL \<Rightarrow> int \<Rightarrow> int \<Rightarrow> ('m, 'v3, 'v4) GL" where
  "renderSetTex2D scene gl prog tex = upload scene prog gl [(UTEX, UInt tex)]"

text \<open>
  Modelled from the spec: \<^verbatim>\<open>renderSetMaterialGL\<close> (missing: its body) "uploads
  ambient/diffuse/specular color vectors to UCLRAMB/UCLRDIFF/UCLRSPEC".
\<close>

definition renderSetMaterialGL ::
  "('m, 'v3, 'v4) Scene \<Rightarrow> ('m, 'v3, 'v4) GL \<Rightarrow> int \<Rightarrow> 'v4 \<Rightarrow> 'v4 \<Rightarrow> 'v4
    \<Rightarrow> ('m, 'v3, 'v4) GL" where
  "renderSetMaterialGL scene gl prog amb diff spec =
    upload scene prog gl [(UCLRAMB, UVec4 amb), (UCLRDIFF, UVec4 diff), (UCLRSPEC, UVec4 spec)]"

text \<open>
  Modelled from the spec: \<^verbatim>\<open>renderSetUW\<close> (missing: its body) "uploads a combined
  model/volume-scale uniform pair (UOVERTEX/UOVERSIZE)". As in \<open>renderCamSetupGL\<close>,
  \<open>model\<close> is the matrix behind a non-null pointer.
\<close>

definition renderSetUW ::
  "('m, 'v3, 'v4) Scene \<Rightarrow> ('m, 'v3, 'v4) GL \<Rightarrow> int \<Rightarrow> 'm \<Rightarrow> 'v3 \<Rightarrow> ('m, 'v3, 'v4) GL" where
  "renderSetUW scene gl prog model res =
    upload scene prog gl [(UOVERTEX, UMat model), (UOVERSIZE, UVec3 res)]"

text \<open>
  Modelled from the spec: \<^verbatim>\<open>renderScreenspaceGL\<close> (missing: its body) "configures
  full-screen-quad rendering state". The spec names no slot for it, so the uploads are
  whatever list the scene holds as that state.
\<close>

definition renderScreenspaceGL ::
  "('m, 'v3, 'v4) Scene \<Rightarrow> ('m, 'v3, 'v4) GL \<Rightarrow> int \<Rightarrow> ('m, 'v3, 'v4) GL" where
  "renderScreenspaceGL scene gl prog = upload scene prog gl (screen_quad scene)"

text \<open>
  Modelled from the spec: the three-parameter \<^verbatim>\<open>renderSceneGL\<close> (missing: its body)
  "issues the draw call(s) for the scene's current geometry; overload with bMat toggles
  whether material uniforms are rebound before drawing". The two-parameter overload is
  not modelled: the spec does not say which of the two behaviours it has.
\<close>

definition renderSceneGL ::
  "('m, 'v3, 'v4) Scene \<Rightarrow> ('m, 'v3, 'v4) GL \<Rightarrow> int \<Rightarrow> bool \<Rightarrow> ('m, 'v3, 'v4) GL" where
  "renderSceneGL scene gl prog bMat =
    (let g = (if bMat
              then (case material scene of
                      (amb, diff, spec) \<Rightarrow> renderSetMaterialGL scene gl prog amb diff spec)
              else gl)
     in g\<lparr>draws := draws g @ map (Pair prog) (geometry scene)\<rparr>)"

text \<open>
  Modelled from the spec: the entries a call leaves in the diagnostic channel for the absent
  slots \<open>ks\<close> of a program: none when the binding ignores them, one each when it logs.
\<close>

definition absent_report :: "('m, 'v3, 'v4) GL \<Rightarrow> int \<Rightarrow> int list \<Rightarrow> (int \<times> int) list" where
  "absent_report gl prog ks = (case on_absent gl of Ignored \<Rightarrow> [] | Logged \<Rightarrow> map (Pair prog) ks)"

section \<open>Properties of the header\<close>

text \<open>
  C1: the 23 uniform slot macros, in the order of the header, take the consecutive values
  0 to 22; they are pairwise distinct, \<^verbatim>\<open>UVIEW\<close> is 0 and \<^verbatim>\<open>UTEXMAX\<close> is 22.
\<close>

theorem uniform_slots_enumeration:
  "map fst uniform_macros =
     [''UVIEW'', ''UPROJ'', ''UMODEL'', ''UINVVIEW'', ''ULIGHTPOS'', ''UCAMPOS'', ''UCAMDIMS'',
      ''UCLRAMB'', ''UCLRDIFF'', ''UCLRSPEC'', ''UTEX'', ''UTEXRES'', ''UW'', ''USHADOWMASK'',
      ''USHADOWSIZE'', ''UEYELIGHT'', ''UOVERTEX'', ''UOVERSIZE'', ''UVOLMIN'', ''UVOLMAX'',
      ''USAMPLES'', ''UTEXMIN'', ''UTEXMAX'']
   \<and> map snd uniform_macros = [0 .. 22]
   \<and> length uniform_macros = 23
   \<and> distinct (map snd uniform_macros)
   \<and> UVIEW = 0 \<and> UTEXMAX = 22"
proof -
  have vals: "map snd uniform_macros =
      [0, 1, 2, 3, 4, 5, 6, 7, 8, 9, 10, 11, 12, 13, 14, 15, 16, 17, 18, 19, 20, 21, 22]"
    by (simp add: uniform_macros_def slot_defs)
  have upt: "[0 .. 22] =
      [0, 1, 2, 3, 4, 5, 6, 7, 8, 9, 10, 11, 12, 13, 14, 15, 16, 17, 18, 19, 20, 21, 22 :: int]"
    by code_simp
  have names: "map fst uniform_macros =
     [''UVIEW'', ''UPROJ'', ''UMODEL'', ''UINVVIEW'', ''ULIGHTPOS'', ''UCAMPOS'', ''UCAMDIMS'',
      ''UCLRAMB'', ''UCLRDIFF'', ''UCLRSPEC'', ''UTEX'', ''UTEXRES'', ''UW'', ''USHADOWMASK'',
      ''USHADOWSIZE'', ''UEYELIGHT'', ''UOVERTEX'', ''UOVERSIZE'', ''UVOLMIN'', ''UVOLMAX'',
      ''USAMPLES'', ''UTEXMIN'', ''UTEXMAX'']"
    by (simp add: uniform_macros_def)
  have len: "length uniform_macros = 23"
    by (simp add: uniform_macros_def)
  have dist: "distinct (map snd uniform_macros)"
    unfolding vals by simp
  show ?thesis
    using vals upt names len dist by (simp add: UVIEW_def UTEXMAX_def)
qed

text \<open>
  C2: every function the header declares (\<^verbatim>\<open>gchkGL\<close>, the render setup functions and
  the seven shader factories) has return type \<^verbatim>\<open>void\<close>, whether or not
  \<^verbatim>\<open>BUILD_OPENGL\<close> is defined; no declaration hands a result or an error code back.
\<close>

theorem all_declarations_return_void:
  "map fname (declarations (gvdb_render_h True)) =
     [''gchkGL'',
      ''renderCamSetupGL'', ''renderLightSetupGL'', ''renderSceneGL'', ''renderSceneGL'',
      ''renderSetTex3D'', ''renderSetTex2D'', ''renderSetMaterialGL'', ''renderSetUW'',
      ''renderScreenspaceGL'',
      ''makeSimpleShaderGL'', ''makeSliceShader'', ''makeOutlineShader'',
      ''makeVoxelizeShader'', ''makeRaycastShader'', ''makeInstanceShader'',
      ''makeScreenShader'']
   \<and> map ret (declarations (gvdb_render_h True)) = replicate 17 TVoid
   \<and> list_all (\<lambda>d. ret d = TVoid) (declarations (gvdb_render_h b))"
proof -
  have names: "map fname opengl_render =
     [''gchkGL'',
      ''renderCamSetupGL'', ''renderLightSetupGL'', ''renderSceneGL'', ''renderSceneGL'',
      ''renderSetTex3D'', ''renderSetTex2D'', ''renderSetMaterialGL'', ''renderSetUW'',
      ''renderScreenspaceGL'',
      ''makeSimpleShaderGL'', ''makeSliceShader'', ''makeOutlineShader'',
      ''makeVoxelizeShader'', ''makeRaycastShader'', ''makeInstanceShader'',
      ''makeScreenShader'']"
    by (simp add: opengl_render_def decl_defs)
  have rets: "map ret opengl_render = replicate 17 TVoid"
    by (simp add: opengl_render_def decl_defs numeral_eq_Suc)
  have every: "list_all (\<lambda>d. ret d = TVoid) opengl_render"
    by (simp add: opengl_render_def decl_defs)
  show ?thesis
    using names rets every by (cases b) (simp_all add: gvdb_render_h_def)
qed

text \<open>
  C3: the header declares exactly seven shader factories. Each takes a \<^verbatim>\<open>Scene*\<close>
  first and then source-file names of type \<^verbatim>\<open>const char*\<close>:
  \<^verbatim>\<open>makeVoxelizeShader\<close> takes three of them (vertex, fragment, geometry), every other
  factory takes two (vertex, fragment).
\<close>

theorem seven_shader_factories:
  "map fname (shader_factories (gvdb_render_h True)) =
     [''makeSimpleShaderGL'', ''makeSliceShader'', ''makeOutlineShader'',
      ''makeVoxelizeShader'', ''makeRaycastShader'', ''makeInstanceShader'',
      ''makeScreenShader'']
   \<and> length (shader_factories (gvdb_render_h True)) = 7
   \<and> map (\<lambda>d. map fst (args d)) (shader_factories (gvdb_render_h True)) =
     [[Scene_ptr, const_char_ptr, const_char_ptr],
      [Scene_ptr, const_char_ptr, const_char_ptr],
      [Scene_ptr, const_char_ptr, const_char_ptr],
      [Scene_ptr, const_char_ptr, const_char_ptr, const_char_ptr],
      [Scene_ptr, const_char_ptr, const_char_ptr],
      [Scene_ptr, const_char_ptr, const_char_ptr],
      [Scene_ptr, const_char_ptr, const_char_ptr]]
   \<and> map snd (args makeVoxelizeShader_decl) = [''scene'', ''vertname'', ''fragname'', ''geomname'']
   \<and> map (\<lambda>d. map snd (tl (args d)))
         (filter (\<lambda>d. d \<noteq> makeVoxelizeShader_decl) (shader_factories (gvdb_render_h True))) =
     [[''vertfile'', ''fragfile''], [''vertname'', ''fragname''], [''vertname'', ''fragname''],
      [''vertname'', ''fragname''], [''vertname'', ''fragname''], [''vertname'', ''fragname'']]"
proof -
  have fs: "shader_factories (gvdb_render_h True) =
      [makeSimpleShaderGL_decl, makeSliceShader_decl, makeOutlineShader_decl,
       makeVoxelizeShader_decl, makeRaycastShader_decl, makeInstanceShader_decl,
       makeScreenShader_decl]"
    by (simp add: shader_factories_def gvdb_render_h_def opengl_render_def
        is_shader_factory_def decl_defs)
  show ?thesis
    unfolding fs by (simp add: decl_defs)
qed

text \<open>
  C9: the whole rendering interface (\<^verbatim>\<open>gchkGL\<close>, the nine render setup declarations
  and the seven shader factories) is declared exactly when \<^verbatim>\<open>BUILD_OPENGL\<close> is
  defined. Without the flag the header declares no function and still defines the 23
  uniform slot macros.
\<close>

theorem interface_guarded_by_BUILD_OPENGL:
  "declarations (gvdb_render_h False) = []
   \<and> macros (gvdb_render_h False) = uniform_macros
   \<and> macros (gvdb_render_h True) = uniform_macros
   \<and> (declarations (gvdb_render_h b) \<noteq> []) = b
   \<and> declarations (gvdb_render_h True) =
       gchkGL_decl # render_setups (gvdb_render_h True) @ shader_factories (gvdb_render_h True)
   \<and> length (render_setups (gvdb_render_h True)) = 9
   \<and> length (shader_factories (gvdb_render_h True)) = 7
   \<and> length (declarations (gvdb_render_h True)) = 17
   \<and> map fst (macros (gvdb_render_h False)) =
     [''UVIEW'', ''UPROJ'', ''UMODEL'', ''UINVVIEW'', ''ULIGHTPOS'', ''UCAMPOS'', ''UCAMDIMS'',
      ''UCLRAMB'', ''UCLRDIFF'', ''UCLRSPEC'', ''UTEX'', ''UTEXRES'', ''UW'', ''USHADOWMASK'',
      ''USHADOWSIZE'', ''UEYELIGHT'', ''UOVERTEX'', ''UOVERSIZE'', ''UVOLMIN'', ''UVOLMAX'',
      ''USAMPLES'', ''UTEXMIN'', ''UTEXMAX'']"
proof -
  have fs: "shader_factories (gvdb_render_h True) =
      [makeSimpleShaderGL_decl, makeSliceShader_decl, makeOutlineShader_decl,
       makeVoxelizeShader_decl, makeRaycastShader_decl, makeInstanceShader_decl,
       makeScreenShader_decl]"
    by (simp add: shader_factories_def gvdb_render_h_def opengl_render_def
        is_shader_factory_def decl_defs)
  have rs: "render_setups (gvdb_render_h True) =
      [renderCamSetupGL_decl, renderLightSetupGL_decl, renderSceneGL_decl2,
       renderSceneGL_decl3, renderSetTex3D_decl, renderSetTex2D_decl,
       renderSetMaterialGL_decl, renderSetUW_decl, renderScreenspaceGL_decl]"
    by (simp add: render_setups_def gvdb_render_h_def opengl_render_def
        is_render_setup_def decl_defs)
  have all: "declarations (gvdb_render_h True) = opengl_render"
    by (simp add: gvdb_render_h_def)
  have split: "declarations (gvdb_render_h True) =
       gchkGL_decl # render_setups (gvdb_render_h True) @ shader_factories (gvdb_render_h True)"
    unfolding fs rs all by (simp add: opengl_render_def)
  have guard: "(declarations (gvdb_render_h b) \<noteq> []) = b"
    by (cases b) (simp_all add: gvdb_render_h_def opengl_render_def)
  have off: "declarations (gvdb_render_h False) = []"
    by (simp add: gvdb_render_h_def)
  have ms: "macros (gvdb_render_h False) = uniform_macros"
      "macros (gvdb_render_h True) = uniform_macros"
    by (simp_all add: gvdb_render_h_def)
  have lens: "length (render_setups (gvdb_render_h True)) = 9"
      "length (shader_factories (gvdb_render_h True)) = 7"
      "length (declarations (gvdb_render_h True)) = 17"
    unfolding fs rs all by (simp_all add: opengl_render_def)
  have names: "map fst uniform_macros =
     [''UVIEW'', ''UPROJ'', ''UMODEL'', ''UINVVIEW'', ''ULIGHTPOS'', ''UCAMPOS'', ''UCAMDIMS'',
      ''UCLRAMB'', ''UCLRDIFF'', ''UCLRSPEC'', ''UTEX'', ''UTEXRES'', ''UW'', ''USHADOWMASK'',
      ''USHADOWSIZE'', ''UEYELIGHT'', ''UOVERTEX'', ''UOVERSIZE'', ''UVOLMIN'', ''UVOLMAX'',
      ''USAMPLES'', ''UTEXMIN'', ''UTEXMAX'']"
    by (simp add: uniform_macros_def)
  show ?thesis
    using off ms guard split lens names by simp
qed

text \<open>
  C10: in both \<^verbatim>\<open>renderCamSetupGL\<close> and \<^verbatim>\<open>renderSetUW\<close> the parameter
  \<^verbatim>\<open>model\<close> has the pointer type \<^verbatim>\<open>Matrix4F*\<close>, a type that admits the null
  pointer. A declaration carries a name, a return type and a parameter list and nothing
  else, so the interface states no precondition on that pointer. (By contrast the
  \<^verbatim>\<open>res\<close> parameter of \<^verbatim>\<open>renderSetUW\<close> is passed by value and has no null.)
\<close>

theorem model_matrix_pointer_admits_null:
  "arg_type renderCamSetupGL_decl ''model'' = Some (TPtr (TClass ''Matrix4F''))
   \<and> arg_type renderSetUW_decl ''model'' = Some (TPtr (TClass ''Matrix4F''))
   \<and> admits_null (the (arg_type renderCamSetupGL_decl ''model''))
   \<and> admits_null (the (arg_type renderSetUW_decl ''model''))
   \<and> arg_type renderSetUW_decl ''res'' = Some (TClass ''Vector3DF'')
   \<and> \<not> admits_null (the (arg_type renderSetUW_decl ''res''))
   \<and> renderCamSetupGL_decl \<in> set (declarations (gvdb_render_h True))
   \<and> renderSetUW_decl \<in> set (declarations (gvdb_render_h True))"
  by (simp add: arg_type_def renderCamSetupGL_decl_def renderSetUW_decl_def
      gvdb_render_h_def opengl_render_def)

section \<open>Properties of the modelled render calls\<close>

subsection \<open>What an upload touches\<close>

text \<open>An upload changes neither the binding's policy nor the draw calls.\<close>

lemma setUniform_frame:
  "on_absent (setUniform scene prog gl kv) = on_absent gl"
  "draws (setUniform scene prog gl kv) = draws gl"
  by (simp_all add: setUniform_def split: absent_policy.split)

lemma upload_frame:
  "on_absent (upload scene prog gl kvs) = on_absent gl \<and> draws (upload scene prog gl kvs) = draws gl"
  by (induction kvs arbitrary: gl) (simp_all add: setUniform_frame)

text \<open>An upload leaves every slot alone that is not in its list, and every other program.\<close>

lemma setUniform_other:
  "pk \<noteq> (prog, fst kv) \<Longrightarrow> uniforms (setUniform scene prog gl kv) pk = uniforms gl pk"
  by (simp add: setUniform_def split: absent_policy.split)

lemma upload_other:
  "snd pk \<notin> set (map fst kvs) \<Longrightarrow> uniforms (upload scene prog gl kvs) pk = uniforms gl pk"
proof (induction kvs arbitrary: gl)
  case Nil
  then show ?case by simp
next
  case (Cons kv kvs)
  from Cons.prems have "pk \<noteq> (prog, fst kv)" by auto
  with Cons show ?case by (simp add: setUniform_other)
qed

lemma upload_other_prog:
  "fst pk \<noteq> prog \<Longrightarrow> uniforms (upload scene prog gl kvs) pk = uniforms gl pk"
proof (induction kvs arbitrary: gl)
  case Nil
  then show ?case by simp
next
  case (Cons kv kvs)
  from Cons.prems have "pk \<noteq> (prog, fst kv)" by auto
  with Cons show ?case by (simp add: setUniform_other)
qed

text \<open>A slot that the list names once ends up holding its value, if the program declares it.\<close>

lemma upload_last:
  "distinct (map fst kvs) \<Longrightarrow> (k, v) \<in> set kvs \<Longrightarrow>
   uniforms (upload scene prog gl kvs) (prog, k) =
     (if declares scene prog k then Some v else uniforms gl (prog, k))"
proof (induction kvs arbitrary: gl)
  case Nil
  then show ?case by simp
next
  case (Cons kv kvs)
  show ?case
  proof (cases "kv = (k, v)")
    case True
    with Cons.prems have "k \<notin> set (map fst kvs)" by auto
    then have "uniforms (upload scene prog (setUniform scene prog gl kv) kvs) (prog, k)
        = uniforms (setUniform scene prog gl kv) (prog, k)"
      by (simp add: upload_other)
    with True show ?thesis
      by (simp add: setUniform_def split: absent_policy.split)
  next
    case False
    with Cons.prems have in_tl: "(k, v) \<in> set kvs" and d: "distinct (map fst kvs)" by auto
    from in_tl have "k \<in> set (map fst kvs)" by force
    with Cons.prems(1) have "fst kv \<noteq> k" by auto
    then have "uniforms (setUniform scene prog gl kv) (prog, k) = uniforms gl (prog, k)"
      by (simp add: setUniform_other)
    with Cons.IH[OF d in_tl] show ?thesis by simp
  qed
qed


text \<open>The diagnostic channel after the uploads: one report for each absent slot, in order.\<close>

lemma absent_report_setUniform:
  "absent_report (setUniform scene prog gl kv) prog' ks = absent_report gl prog' ks"
  by (simp add: absent_report_def setUniform_frame)

lemma upload_diagnostics:
  "diagnostics (upload scene prog gl kvs) =
     diagnostics gl @ absent_report gl prog (filter (\<lambda>k. \<not> declares scene prog k) (map fst kvs))"
proof (induction kvs arbitrary: gl)
  case Nil
  then show ?case by (simp add: absent_report_def split: absent_policy.split)
next
  case (Cons kv kvs)
  show ?case
  proof (cases "declares scene prog (fst kv)")
    case True
    then have "diagnostics (setUniform scene prog gl kv) = diagnostics gl"
      by (simp add: setUniform_def)
    with True Cons.IH[of "setUniform scene prog gl kv"] show ?thesis
      by (simp add: absent_report_setUniform)
  next
    case False
    then have "diagnostics (setUniform scene prog gl kv) = diagnostics gl @ absent_report gl prog [fst kv]"
      by (simp add: setUniform_def absent_report_def split: absent_policy.split)
    with False Cons.IH[of "setUniform scene prog gl kv"] show ?thesis
      by (simp add: absent_report_setUniform) (simp add: absent_report_def split: absent_policy.split)
  qed
qed

subsection \<open>The claims about the render calls\<close>

text \<open>
  C4: \<^verbatim>\<open>renderSetTex3D\<close> is declared with a \<^verbatim>\<open>Vector3DF res\<close> parameter after
  scene, program and texture handle, and \<^verbatim>\<open>renderSetTex2D\<close> without one. In the
  model of the spec both bind the texture handle to slot \<^verbatim>\<open>UTEX\<close>; the 3-D form also
  uploads \<open>res\<close> to slot \<^verbatim>\<open>UTEXRES\<close>, the 2-D form leaves \<^verbatim>\<open>UTEXRES\<close> as it was
  and reports on no slot but \<^verbatim>\<open>UTEX\<close>. (A slot takes the value when the program declares
  it, and keeps its old value otherwise.)
\<close>

theorem tex3D_uploads_resolution_tex2D_none:
  "args renderSetTex3D_decl =
     [(Scene_ptr, ''scene''), (TInt, ''prog''), (TInt, ''tex''), (TClass ''Vector3DF'', ''res'')]
   \<and> args renderSetTex2D_decl = [(Scene_ptr, ''scene''), (TInt, ''prog''), (TInt, ''tex'')]
   \<and> arg_type renderSetTex2D_decl ''res'' = None
   \<and> uniforms (renderSetTex3D scene gl prog tex res) (prog, UTEX) =
       (if declares scene prog UTEX then Some (UInt tex) else uniforms gl (prog, UTEX))
   \<and> uniforms (renderSetTex3D scene gl prog tex res) (prog, UTEXRES) =
       (if declares scene prog UTEXRES then Some (UVec3 res) else uniforms gl (prog, UTEXRES))
   \<and> uniforms (renderSetTex2D scene gl prog tex) (prog, UTEX) =
       (if declares scene prog UTEX then Some (UInt tex) else uniforms gl (prog, UTEX))
   \<and> uniforms (renderSetTex2D scene gl prog tex) (p, UTEXRES) = uniforms gl (p, UTEXRES)
   \<and> diagnostics (renderSetTex2D scene gl prog tex) =
       diagnostics gl @ absent_report gl prog (filter (\<lambda>k. \<not> declares scene prog k) [UTEX])"
proof -
  have sig: "args renderSetTex3D_decl =
       [(Scene_ptr, ''scene''), (TInt, ''prog''), (TInt, ''tex''), (TClass ''Vector3DF'', ''res'')]"
      "args renderSetTex2D_decl = [(Scene_ptr, ''scene''), (TInt, ''prog''), (TInt, ''tex'')]"
      "arg_type renderSetTex2D_decl ''res'' = None"
    by (simp_all add: renderSetTex3D_decl_def renderSetTex2D_decl_def arg_type_def)
  have d3: "distinct (map fst [(UTEX, UInt tex), (UTEXRES, UVec3 res :: ('a, 'b, 'c) uval)])"
    by (simp add: UTEX_def UTEXRES_def)
  have t3: "uniforms (renderSetTex3D scene gl prog tex res) (prog, UTEX) =
       (if declares scene prog UTEX then Some (UInt tex) else uniforms gl (prog, UTEX))"
    unfolding renderSetTex3D_def by (rule upload_last[OF d3]) simp
  have r3: "uniforms (renderSetTex3D scene gl prog tex res) (prog, UTEXRES) =
       (if declares scene prog UTEXRES then Some (UVec3 res) else uniforms gl (prog, UTEXRES))"
    unfolding renderSetTex3D_def by (rule upload_last[OF d3]) simp
  have t2: "uniforms (renderSetTex2D scene gl prog tex) (prog, UTEX) =
       (if declares scene prog UTEX then Some (UInt tex) else uniforms gl (prog, UTEX))"
    unfolding renderSetTex2D_def by (rule upload_last) simp_all
  have r2: "uniforms (renderSetTex2D scene gl prog tex) (p, UTEXRES) = uniforms gl (p, UTEXRES)"
    unfolding renderSetTex2D_def by (rule upload_other) (simp add: UTEX_def UTEXRES_def)
  have g2: "diagnostics (renderSetTex2D scene gl prog tex) =
       diagnostics gl @ absent_report gl prog (filter (\<lambda>k. \<not> declares scene prog k) [UTEX])"
    unfolding renderSetTex2D_def upload_diagnostics by simp
  show ?thesis
    using sig t3 r3 t2 r2 g2 by blast
qed

text \<open>
  C8: in the model of the spec \<^verbatim>\<open>renderSetUW\<close> uploads the model matrix and the
  resolution to the slots \<^verbatim>\<open>UOVERTEX\<close> and \<^verbatim>\<open>UOVERSIZE\<close>, whose values are 16 and
  17. Slot \<^verbatim>\<open>UW\<close>, of value 12, keeps its value for every program, and the diagnostic
  channel gets no report on it.
\<close>

theorem renderSetUW_slots:
  "UOVERTEX = 16 \<and> UOVERSIZE = 17 \<and> UW = 12
   \<and> uniforms (renderSetUW scene gl prog model res) (prog, UOVERTEX) =
       (if declares scene prog UOVERTEX then Some (UMat model) else uniforms gl (prog, UOVERTEX))
   \<and> uniforms (renderSetUW scene gl prog model res) (prog, UOVERSIZE) =
       (if declares scene prog UOVERSIZE then Some (UVec3 res) else uniforms gl (prog, UOVERSIZE))
   \<and> uniforms (renderSetUW scene gl prog model res) (p, UW) = uniforms gl (p, UW)
   \<and> diagnostics (renderSetUW scene gl prog model res) =
       diagnostics gl @
       absent_report gl prog (filter (\<lambda>k. \<not> declares scene prog k) [UOVERTEX, UOVERSIZE])"
proof -
  have vals: "UOVERTEX = 16" "UOVERSIZE = 17" "UW = 12"
    by (simp_all add: UOVERTEX_def UOVERSIZE_def UW_def)
  have d: "distinct (map fst [(UOVERTEX, UMat model), (UOVERSIZE, UVec3 res :: ('a, 'b, 'c) uval)])"
    by (simp add: vals)
  have a: "uniforms (renderSetUW scene gl prog model res) (prog, UOVERTEX) =
       (if declares scene prog UOVERTEX then Some (UMat model) else uniforms gl (prog, UOVERTEX))"
    unfolding renderSetUW_def by (rule upload_last[OF d]) simp
  have b: "uniforms (renderSetUW scene gl prog model res) (prog, UOVERSIZE) =
       (if declares scene prog UOVERSIZE then Some (UVec3 res) else uniforms gl (prog, UOVERSIZE))"
    unfolding renderSetUW_def by (rule upload_last[OF d]) simp
  have c: "uniforms (renderSetUW scene gl prog model res) (p, UW) = uniforms gl (p, UW)"
    unfolding renderSetUW_def by (rule upload_other) (simp add: vals)
  have g: "diagnostics (renderSetUW scene gl prog model res) =
       diagnostics gl @
       absent_report gl prog (filter (\<lambda>k. \<not> declares scene prog k) [UOVERTEX, UOVERSIZE])"
    unfolding renderSetUW_def upload_diagnostics by simp
  show ?thesis
    using vals a b c g by blast
qed

text \<open>
  C7: in the model of the spec \<^verbatim>\<open>renderSceneGL(scene, prog, false)\<close> changes no uniform
  at all. In particular the slots \<^verbatim>\<open>UCLRAMB\<close>, \<^verbatim>\<open>UCLRDIFF\<close> and \<^verbatim>\<open>UCLRSPEC\<close>
  hold after the draw what a preceding \<^verbatim>\<open>renderSetMaterialGL\<close> bound to them.
\<close>

theorem renderSceneGL_false_keeps_material:
  "uniforms (renderSceneGL scene gl prog False) = uniforms gl
   \<and> diagnostics (renderSceneGL scene gl prog False) = diagnostics gl
   \<and> uniforms (renderSceneGL scene (renderSetMaterialGL scene gl prog amb diff spec) prog False)
         (prog, UCLRAMB) =
       (if declares scene prog UCLRAMB then Some (UVec4 amb) else uniforms gl (prog, UCLRAMB))
   \<and> uniforms (renderSceneGL scene (renderSetMaterialGL scene gl prog amb diff spec) prog False)
         (prog, UCLRDIFF) =
       (if declares scene prog UCLRDIFF then Some (UVec4 diff) else uniforms gl (prog, UCLRDIFF))
   \<and> uniforms (renderSceneGL scene (renderSetMaterialGL scene gl prog amb diff spec) prog False)
         (prog, UCLRSPEC) =
       (if declares scene prog UCLRSPEC then Some (UVec4 spec) else uniforms gl (prog, UCLRSPEC))"
proof -
  have keep: "uniforms (renderSceneGL scene g prog False) = uniforms g"
      "diagnostics (renderSceneGL scene g prog False) = diagnostics g" for g
    by (simp_all add: renderSceneGL_def Let_def)
  have d: "distinct (map fst [(UCLRAMB, UVec4 amb), (UCLRDIFF, UVec4 diff),
             (UCLRSPEC, UVec4 spec :: ('a, 'b, 'c) uval)])"
    by (simp add: UCLRAMB_def UCLRDIFF_def UCLRSPEC_def)
  have a: "uniforms (renderSetMaterialGL scene gl prog amb diff spec) (prog, UCLRAMB) =
       (if declares scene prog UCLRAMB then Some (UVec4 amb) else uniforms gl (prog, UCLRAMB))"
    unfolding renderSetMaterialGL_def by (rule upload_last[OF d]) simp
  have b: "uniforms (renderSetMaterialGL scene gl prog amb diff spec) (prog, UCLRDIFF) =
       (if declares scene prog UCLRDIFF then Some (UVec4 diff) else uniforms gl (prog, UCLRDIFF))"
    unfolding renderSetMaterialGL_def by (rule upload_last[OF d]) simp
  have c: "uniforms (renderSetMaterialGL scene gl prog amb diff spec) (prog, UCLRSPEC) =
       (if declares scene prog UCLRSPEC then Some (UVec4 spec) else uniforms gl (prog, UCLRSPEC))"
    unfolding renderSetMaterialGL_def by (rule upload_last[OF d]) simp
  show ?thesis
    using a b c by (simp add: keep)
qed

text \<open>
  With \<open>bMat\<close> true the call does rebind: the ambient slot then holds the scene's own
  material, whatever was bound before.
\<close>

lemma renderSceneGL_true_rebinds:
  "declares scene prog UCLRAMB \<Longrightarrow>
   uniforms (renderSceneGL scene gl prog True) (prog, UCLRAMB) = Some (UVec4 (fst (material scene)))"
proof -
  assume dec: "declares scene prog UCLRAMB"
  obtain amb diff spec where m: "material scene = (amb, diff, spec)"
    by (cases "material scene")
  have d: "distinct (map fst [(UCLRAMB, UVec4 amb), (UCLRDIFF, UVec4 diff),
             (UCLRSPEC, UVec4 spec :: ('a, 'b, 'c) uval)])"
    by (simp add: UCLRAMB_def UCLRDIFF_def UCLRSPEC_def)
  have "uniforms (renderSetMaterialGL scene gl prog amb diff spec) (prog, UCLRAMB) =
       (if declares scene prog UCLRAMB then Some (UVec4 amb) else uniforms gl (prog, UCLRAMB))"
    unfolding renderSetMaterialGL_def by (rule upload_last[OF d]) simp
  with dec m show ?thesis
    by (simp add: renderSceneGL_def Let_def)
qed

end
